theory Spec2Isabelle
  imports Main "HOL-Library.Word"
begin

section \<open>The flat database of src/flat-database.cpp\<close>

text \<open>
  \<^verbatim>\<open>CFlatDB<T>\<close> keeps one object of type \<^verbatim>\<open>T\<close> in one file: a type tag (the
  "magic message"), the four network bytes, the serialized object, and a 32-byte
  checksum over everything before it. \<^verbatim>\<open>Write\<close> produces the file, \<^verbatim>\<open>Read\<close> checks and
  loads it, \<^verbatim>\<open>LoadFlatDB\<close> and \<^verbatim>\<open>DumpFlatDB\<close> decide from the result of \<^verbatim>\<open>Read\<close> whether to
  go on.

  The embedding follows the source statement by statement. The object, the file at
  \<^verbatim>\<open>pathDB\<close> and the calls made on collaborators are an explicit state; every
  \<^verbatim>\<open>return\<close> and every \<^verbatim>\<open>catch\<close> of the source is a branch.
\<close>

subsection \<open>Data\<close>

type_synonym byte = "8 word"

text \<open>\<^verbatim>\<open>uint256\<close>: a 256-bit value, stored and compared as 32 raw bytes.\<close>

type_synonym uint256 = "256 word"

text \<open>The result codes of \<^verbatim>\<open>Read\<close>, as the source names them.\<close>

datatype CFlatDB_ReadResult =
    Ok
  | FileError
  | HashReadError
  | IncorrectHash
  | IncorrectMagicMessage
  | IncorrectMagicNumber
  | IncorrectFormat

text \<open>
  What the source takes from outside this file, as parameters: the members
  \<^verbatim>\<open>strMagicMessage\<close> of the database and \<^verbatim>\<open>Params().MessageStart()\<close> (an array of four
  bytes), the function \<^verbatim>\<open>Hash\<close>, the stream operators for \<^verbatim>\<open>std::string\<close>, and the
  methods of the template parameter \<^verbatim>\<open>T\<close>. \<open>ReadString\<close> returns the string and the rest
  of the stream, or \<open>None\<close> when it throws. \<open>Unserialize\<close> is \<^verbatim>\<open>ssObj >> objToLoad\<close>: it gets
  the object as it is and the stream, and returns \<open>Inr\<close> the loaded object, or \<open>Inl\<close> the
  object as the exception left it. \<open>FileAtEnd\<close> and \<open>StreamAtEnd\<close> are what a read of \<open>n\<close>
  raw bytes does when fewer than \<open>n\<close> bytes are left, in the file (\<^verbatim>\<open>CAutoFile\<close>) and in
  the memory stream (\<^verbatim>\<open>CDataStream\<close>): \<open>None\<close> when it throws, or else what it
  delivers and the rest. Neither the source nor its description says which.
\<close>

record 'p env =
  strMagicMessage :: string
  MessageStart :: "byte \<times> byte \<times> byte \<times> byte"
  Hash :: "byte list \<Rightarrow> uint256"
  WriteString :: "string \<Rightarrow> byte list"
  ReadString :: "byte list \<Rightarrow> (string \<times> byte list) option"
  Serialize :: "'p \<Rightarrow> byte list"
  Unserialize :: "'p \<Rightarrow> byte list \<Rightarrow> 'p + 'p"
  Clear :: "'p \<Rightarrow> 'p"
  CheckAndRemove :: "'p \<Rightarrow> 'p"
  FileAtEnd :: "nat \<Rightarrow> byte list \<Rightarrow> (byte list \<times> byte list) option"
  StreamAtEnd :: "nat \<Rightarrow> byte list \<Rightarrow> (byte list \<times> byte list) option"

text \<open>
  The calls on collaborators that the claims speak about: the two mutating methods of the
  object, and \<^verbatim>\<open>CFlatDB::Write\<close>.
\<close>

datatype call = CallClear | CallCheckAndRemove | CallWrite

text \<open>
  How the file system answers \<^verbatim>\<open>Write\<close>: the whole file is written; or
  \<^verbatim>\<open>fopen(..., "wb")\<close> returns null; or the file is opened and the write throws after some
  bytes; or the write is taken into the buffer of the file and only some bytes reach the
  file when it is closed, which the source does not notice.
\<close>

datatype fs_write = WriteOk | OpenFails | WriteFails nat | CloseFails nat

text \<open>
  The state: the object passed by reference (\<^verbatim>\<open>objToLoad\<close>, \<^verbatim>\<open>objToSave\<close>), the file at
  \<^verbatim>\<open>pathDB\<close> (\<open>None\<close>: \<^verbatim>\<open>fopen(..., "rb")\<close> returns null), the answer of the file system
  to a write, and the calls made so far, the latest last.
\<close>

record 'p state =
  obj :: 'p
  disk :: "byte list option"
  on_write :: fs_write
  calls :: "call list"

subsection \<open>Streams\<close>

text \<open>
  Modelled from the spec: the stream classes \<^verbatim>\<open>CAutoFile\<close> and \<^verbatim>\<open>CDataStream\<close> (streams.h)
  are not among the sources. A read of \<open>n\<close> raw bytes (step 3: "Read body length bytes
  into a buffer, then read the trailing checksum") delivers the next \<open>n\<close> bytes and the
  rest.
  When fewer than \<open>n\<close> bytes are left, the read does what the parameter says.
\<close>

definition file_read :: "'p env \<Rightarrow> nat \<Rightarrow> byte list \<Rightarrow> (byte list \<times> byte list) option" where
  "file_read env n s = (if length s < n then FileAtEnd env n s else Some (take n s, drop n s))"

definition stream_read :: "'p env \<Rightarrow> nat \<Rightarrow> byte list \<Rightarrow> (byte list \<times> byte list) option" where
  "stream_read env n s =
     (if length s < n then StreamAtEnd env n s else Some (take n s, drop n s))"

text \<open>
  Modelled from the spec: \<^verbatim>\<open>uint256\<close> (uint256.h) is not among the sources; its checksum
  field is "fixed 32 bytes". The bytes are written lowest first.
\<close>

definition ser_uint256 :: "uint256 \<Rightarrow> byte list" where
  "ser_uint256 h = map (\<lambda>i. ucast (drop_bit (8 * i) h)) [0..<32]"

definition unser_uint256 :: "byte list \<Rightarrow> uint256" where
  "unser_uint256 bs = word_of_int (horner_sum uint (2 ^ 8) bs)"

text \<open>
  Modelled from the spec: the macro \<^verbatim>\<open>FLATDATA\<close> (serialize.h) is not among the sources;
  the network tag is "fixed N bytes", here the four bytes of the array as they are.
\<close>

fun FLATDATA :: "byte \<times> byte \<times> byte \<times> byte \<Rightarrow> byte list" where
  "FLATDATA (a, b, c, d) = [a, b, c, d]"

subsection \<open>Write\<close>

text \<open>
  Lines 89 to 94: the stream that \<^verbatim>\<open>Write\<close> builds in memory, the tags and the object and
  then the hash of these bytes.
\<close>

definition Write_ssObj :: "'p env \<Rightarrow> 'p \<Rightarrow> byte list" where
  "Write_ssObj env objToSave =
     (let ssObj = WriteString env (strMagicMessage env)
                  @ FLATDATA (MessageStart env)
                  @ Serialize env objToSave;
          hash = Hash env ssObj
      in ssObj @ ser_uint256 hash)"

text \<open>
  Lines 97 to 114. The file is opened for writing, which empties it, and the stream is
  written. When the file cannot be opened (line 99) \<^verbatim>\<open>Write\<close> returns false and the file is
  as before; when the write throws (line 106) it returns false and the file holds what
  was written until then. Line 109 closes the file and does not look at the result:
  when bytes are lost there, \<^verbatim>\<open>Write\<close> still returns true (line 114) and the file holds
  what reached it. The object is a \<^verbatim>\<open>const\<close> reference.
\<close>

definition Write :: "'p env \<Rightarrow> 'p state \<Rightarrow> bool \<times> 'p state" where
  "Write env st =
     (let ssObj = Write_ssObj env (obj st);
          st = st\<lparr>calls := calls st @ [CallWrite]\<rparr>
      in case on_write st of
           OpenFails \<Rightarrow> (False, st)
         | WriteFails k \<Rightarrow> (False, st\<lparr>disk := Some (take k ssObj)\<rparr>)
         | CloseFails k \<Rightarrow> (True, st\<lparr>disk := Some (take k ssObj)\<rparr>)
         | WriteOk \<Rightarrow> (True, st\<lparr>disk := Some ssObj\<rparr>))"

subsection \<open>Read\<close>

text \<open>
  Lines 133 to 137. \<^verbatim>\<open>fileSize\<close> and \<^verbatim>\<open>dataSize\<close> are \<^verbatim>\<open>int\<close>: the size of the file is cut
  to 32 bits, \<^verbatim>\<open>sizeof(uint256)\<close> is 32, and a negative \<^verbatim>\<open>dataSize\<close> becomes 0. The result is
  the number of bytes that \<^verbatim>\<open>vchData\<close> is resized to.
\<close>

definition dataSize_of :: "nat \<Rightarrow> nat" where
  "dataSize_of n =
     (let fileSize = (word_of_nat n :: 32 word);
          dataSize = fileSize - 32
      in if sint dataSize < 0 then 0 else unat dataSize)"

text \<open>
  Lines 138 to 150: \<^verbatim>\<open>dataSize\<close> bytes are read into \<^verbatim>\<open>vchData\<close>, then the 32 bytes of
  \<^verbatim>\<open>hashIn\<close>. \<open>None\<close> is the exception that the source catches there.

  Line 144 passes \<^verbatim>\<open>&vchData[0]\<close> to the read. When \<^verbatim>\<open>dataSize\<close> is 0 the vector is empty
  and \<^verbatim>\<open>vchData[0]\<close> has no defined behaviour. \<open>read_body\<close> and \<open>Read\<close> are the run with a
  standard library that does not check the index: the address is formed, no byte is
  read to it, and the run goes on. The run with a library that checks the index is
  \<open>Read_checked\<close> below.
\<close>

definition read_body :: "'p env \<Rightarrow> byte list \<Rightarrow> (byte list \<times> uint256) option" where
  "read_body env content =
     (case file_read env (dataSize_of (length content)) content of
        None \<Rightarrow> None
      | Some (vchData, filein) \<Rightarrow>
          (case file_read env 32 filein of
             None \<Rightarrow> None
           | Some (hashIn, _) \<Rightarrow> Some (vchData, unser_uint256 hashIn)))"

text \<open>
  Lines 164 to 195, the \<^verbatim>\<open>try\<close> block: it returns a result code from inside, or throws with
  the object in some state, or runs to its end with the object loaded.
\<close>

datatype 'p tried = Returned CFlatDB_ReadResult | Thrown 'p | Loaded 'p

definition parse_body :: "'p env \<Rightarrow> 'p \<Rightarrow> byte list \<Rightarrow> 'p tried" where
  "parse_body env objToLoad ssObj =
     (case ReadString env ssObj of
        None \<Rightarrow> Thrown objToLoad
      | Some (strMagicMessageTmp, ssObj) \<Rightarrow>
          if strMagicMessage env \<noteq> strMagicMessageTmp then Returned IncorrectMagicMessage
          else
            (case stream_read env 4 ssObj of
               None \<Rightarrow> Thrown objToLoad
             | Some (pchMsgTmp, ssObj) \<Rightarrow>
                 if pchMsgTmp \<noteq> FLATDATA (MessageStart env) then Returned IncorrectMagicNumber
                 else
                   (case Unserialize env objToLoad ssObj of
                      Inl objToLoad \<Rightarrow> Thrown objToLoad
                    | Inr objToLoad \<Rightarrow> Loaded objToLoad)))"

text \<open>\<^verbatim>\<open>CFlatDB<T>::Read\<close>, lines 118 to 206.\<close>

definition Read :: "'p env \<Rightarrow> bool \<Rightarrow> 'p state \<Rightarrow> CFlatDB_ReadResult \<times> 'p state" where
  "Read env fDryRun st =
     (case disk st of
        None \<Rightarrow> (FileError, st)
      | Some content \<Rightarrow>
          (case read_body env content of
             None \<Rightarrow> (HashReadError, st)
           | Some (vchData, hashIn) \<Rightarrow>
               if hashIn \<noteq> Hash env vchData then (IncorrectHash, st)
               else
                 (case parse_body env (obj st) vchData of
                    Returned r \<Rightarrow> (r, st)
                  | Thrown objToLoad \<Rightarrow>
                      (IncorrectFormat,
                       st\<lparr>obj := Clear env objToLoad, calls := calls st @ [CallClear]\<rparr>)
                  | Loaded objToLoad \<Rightarrow>
                      if \<not> fDryRun
                      then (Ok, st\<lparr>obj := CheckAndRemove env objToLoad,
                                    calls := calls st @ [CallCheckAndRemove]\<rparr>)
                      else (Ok, st\<lparr>obj := objToLoad\<rparr>))))"

text \<open>
  \<^verbatim>\<open>Read\<close> with a standard library that checks the index of \<^verbatim>\<open>vchData[0]\<close>: when the file
  has been opened and \<^verbatim>\<open>dataSize\<close> is 0, the program is stopped on line 144 (\<open>None\<close>);
  otherwise \<^verbatim>\<open>Read\<close> runs as above.
\<close>

definition Read_checked ::
  "'p env \<Rightarrow> bool \<Rightarrow> 'p state \<Rightarrow> (CFlatDB_ReadResult \<times> 'p state) option" where
  "Read_checked env fDryRun st =
     (case disk st of
        None \<Rightarrow> Some (Read env fDryRun st)
      | Some content \<Rightarrow>
          if dataSize_of (length content) = 0 then None
          else Some (Read env fDryRun st))"

subsection \<open>LoadFlatDB and DumpFlatDB\<close>

text \<open>
  Lines 11 to 34. The first \<^verbatim>\<open>Read\<close> has no second argument: \<^verbatim>\<open>fDryRun\<close> is false. When
  the function does not return false it reads a second time.
\<close>

definition LoadFlatDB :: "'p env \<Rightarrow> 'p state \<Rightarrow> bool \<times> 'p state" where
  "LoadFlatDB env st =
     (let (readResult, st) = Read env False st;
          reading = (let (_, st) = Read env False st in (True, st))
      in if readResult = FileError then reading
         else if readResult \<noteq> Ok then
           (if readResult = IncorrectFormat then reading else (False, st))
         else reading)"

text \<open>
  Lines 37 to 65. The object to save is the object that the verifying \<^verbatim>\<open>Read\<close> gets, with
  \<^verbatim>\<open>fDryRun\<close> true. The result of \<^verbatim>\<open>Write\<close> is not looked at.
\<close>

definition DumpFlatDB :: "'p env \<Rightarrow> 'p state \<Rightarrow> bool \<times> 'p state" where
  "DumpFlatDB env st =
     (let (readResult, st) = Read env True st;
          writing = (let (_, st) = Write env st in (True, st))
      in if readResult = FileError then writing
         else if readResult \<noteq> Ok then
           (if readResult = IncorrectFormat then writing else (False, st))
         else writing)"

subsection \<open>A sample instance\<close>

text \<open>
  A small object type for the concrete instances below: a cache of one-byte entries, in
  which the entry 0 is stale. The object is serialized as its length in one byte and its
  entries; strings likewise. The hash is a multiplicative checksum. A read at the end of
  the data throws.
\<close>

definition sample_Hash :: "byte list \<Rightarrow> uint256" where
  "sample_Hash bs = fold (\<lambda>b h. 33 * h + ucast b) bs 5381"

definition sample_WriteString :: "string \<Rightarrow> byte list" where
  "sample_WriteString s = word_of_nat (length s) # map of_char s"

definition sample_ReadString :: "byte list \<Rightarrow> (string \<times> byte list) option" where
  "sample_ReadString bs =
     (case bs of
        [] \<Rightarrow> None
      | n # r \<Rightarrow> if length r < unat n then None
                 else Some (map (\<lambda>b. char_of (unat b)) (take (unat n) r), drop (unat n) r))"

definition sample_Serialize :: "byte list \<Rightarrow> byte list" where
  "sample_Serialize p = word_of_nat (length p) # p"

definition sample_Unserialize :: "byte list \<Rightarrow> byte list \<Rightarrow> byte list + byte list" where
  "sample_Unserialize p bs =
     (case bs of
        [] \<Rightarrow> Inl p
      | n # r \<Rightarrow> if length r < unat n then Inl r else Inr (take (unat n) r))"

definition sample_env :: "byte list env" where
  "sample_env =
     \<lparr>strMagicMessage = ''mn'',
      MessageStart = (1, 2, 3, 4),
      Hash = sample_Hash,
      WriteString = sample_WriteString,
      ReadString = sample_ReadString,
      Serialize = sample_Serialize,
      Unserialize = sample_Unserialize,
      Clear = (\<lambda>_. []),
      CheckAndRemove = filter (\<lambda>b. b \<noteq> 0),
      FileAtEnd = (\<lambda>_ _. None),
      StreamAtEnd = (\<lambda>_ _. None)\<rparr>"

text \<open>A state with the object \<open>p\<close> and the file \<open>d\<close>, and no calls made yet.\<close>

definition sample_state :: "byte list \<Rightarrow> byte list option \<Rightarrow> byte list state" where
  "sample_state p d = \<lparr>obj = p, disk = d, on_write = WriteOk, calls = []\<rparr>"

text \<open>
  A file with a body of nine bytes, which are the tags of the sample and an object with
  the entry 7, and 32 zero bytes in the place of the checksum.
\<close>

definition sample_corrupt :: "byte list" where
  "sample_corrupt = [2, 109, 110, 1, 2, 3, 4, 1, 7] @ replicate 32 0"

section \<open>Facts about the embedding\<close>

subsection \<open>Streams and sizes\<close>

text \<open>The 32 bytes of a \<^verbatim>\<open>uint256\<close> determine it.\<close>

lemma length_ser_uint256: "length (ser_uint256 h) = 32"
  by (simp add: ser_uint256_def)

lemma unser_ser_uint256: "unser_uint256 (ser_uint256 h) = h"
proof (rule bit_word_eqI)
  fix n :: nat
  assume n: "n < LENGTH(256)"
  then have d: "n div 8 < 32" by simp
  have e: "8 * (n div 8) + n mod 8 = n" by simp
  have "bit (unser_uint256 (ser_uint256 h)) n \<longleftrightarrow>
        bit (horner_sum uint (2 ^ LENGTH(8)) (ser_uint256 h)) n"
    using n by (simp add: unser_uint256_def bit_word_of_int_iff)
  also have "\<dots> \<longleftrightarrow> bit (ser_uint256 h ! (n div 8)) (n mod 8)"
    using d bit_horner_sum_uint_exp_iff [of "ser_uint256 h" n]
    by (simp add: length_ser_uint256)
  also have "\<dots> \<longleftrightarrow> bit h (8 * (n div 8) + n mod 8)"
    using d n by (simp add: ser_uint256_def bit_ucast_iff bit_drop_bit_eq)
  finally show "bit (unser_uint256 (ser_uint256 h)) n \<longleftrightarrow> bit h n"
    by (simp only: e)
qed

lemma dataSize_word: "(word_of_nat n :: 32 word) - 32 = word_of_int (int n - 32)"
  by simp

lemma sint_word_of_int32:
  "- (2 ^ 31) \<le> k \<Longrightarrow> k < 2 ^ 31 \<Longrightarrow> sint (word_of_int k :: 32 word) = k"
  using sint_sbintrunc' [of k, where ?'a = 32] by (simp add: signed_take_bit_int_eq_self)

lemma unat_word_of_int32:
  "0 \<le> k \<Longrightarrow> k < 2 ^ 32 \<Longrightarrow> unat (word_of_int k :: 32 word) = nat k"
  by (simp add: unat_eq_nat_uint uint_word_of_int take_bit_int_eq_self)

lemma dataSize_small: "n < 32 \<Longrightarrow> dataSize_of n = 0"
proof -
  assume n: "n < 32"
  have "sint (word_of_int (int n - 32) :: 32 word) = int n - 32"
    using n by (intro sint_word_of_int32) simp_all
  then have "sint ((word_of_nat n :: 32 word) - 32) = int n - 32"
    by (simp only: dataSize_word)
  then show ?thesis using n by (simp add: dataSize_of_def Let_def)
qed

lemma dataSize_big: "32 \<le> n \<Longrightarrow> n < 2 ^ 31 \<Longrightarrow> dataSize_of n = n - 32"
proof -
  assume n: "32 \<le> n" "n < 2 ^ 31"
  have "sint (word_of_int (int n - 32) :: 32 word) = int n - 32"
    using n by (intro sint_word_of_int32) simp_all
  then have s: "sint ((word_of_nat n :: 32 word) - 32) = int n - 32"
    by (simp only: dataSize_word)
  have "unat (word_of_int (int n - 32) :: 32 word) = nat (int n - 32)"
    using n by (intro unat_word_of_int32) simp_all
  then have u: "unat ((word_of_nat n :: 32 word) - 32) = nat (int n - 32)"
    by (simp only: dataSize_word)
  show ?thesis using n s u by (simp add: dataSize_of_def Let_def)
qed

text \<open>
  A file that ends in the 32 bytes of a checksum is read as the bytes before them and
  that checksum, whatever a read at the end of the data does.
\<close>

lemma read_body_append:
  assumes "length (d @ ser_uint256 h) < 2 ^ 31"
  shows "read_body env (d @ ser_uint256 h) = Some (d, h)"
proof -
  have "dataSize_of (length (d @ ser_uint256 h)) = length d"
    using assms dataSize_big [of "length (d @ ser_uint256 h)"]
    by (simp add: length_ser_uint256)
  then show ?thesis
    by (simp add: read_body_def file_read_def length_ser_uint256 unser_ser_uint256)
qed

text \<open>The reads do not depend on the parsers or on the methods of the object.\<close>

lemma read_body_FileAtEnd:
  "FileAtEnd env' = FileAtEnd env \<Longrightarrow> read_body env' content = read_body env content"
  by (auto simp: read_body_def file_read_def split: option.splits)

lemma parse_body_CheckAndRemove:
  "parse_body (env\<lparr>CheckAndRemove := f\<rparr>) p s = parse_body env p s"
  by (simp add: parse_body_def stream_read_def cong: option.case_cong if_cong)

text \<open>The \<^verbatim>\<open>try\<close> block returns no \<open>Ok\<close> from inside.\<close>

lemma parse_body_not_Ok: "parse_body env p s \<noteq> Returned Ok"
  by (simp add: parse_body_def split: option.splits sum.splits)

subsection \<open>Reading what Write wrote\<close>

lemma Read_Write_ssObj:
  assumes d: "disk st = Some (Write_ssObj env P)"
    and len: "length (Write_ssObj env P) < 2 ^ 31"
    and rs: "ReadString env (WriteString env (strMagicMessage env)
               @ FLATDATA (MessageStart env) @ Serialize env P)
             = Some (strMagicMessage env, FLATDATA (MessageStart env) @ Serialize env P)"
    and us: "Unserialize env (obj st) (Serialize env P) = Inr P"
  shows "Read env fDryRun st =
           (Ok, if fDryRun then st\<lparr>obj := P\<rparr>
                else st\<lparr>obj := CheckAndRemove env P,
                        calls := calls st @ [CallCheckAndRemove]\<rparr>)"
proof -
  define body where
    "body = WriteString env (strMagicMessage env) @ FLATDATA (MessageStart env) @ Serialize env P"
  have w: "Write_ssObj env P = body @ ser_uint256 (Hash env body)"
    by (simp add: Write_ssObj_def body_def Let_def)
  have rb: "read_body env (Write_ssObj env P) = Some (body, Hash env body)"
    using len unfolding w by (rule read_body_append)
  have f: "stream_read env 4 (FLATDATA (MessageStart env) @ Serialize env P)
             = Some (FLATDATA (MessageStart env), Serialize env P)"
    by (cases "MessageStart env") (simp add: stream_read_def)
  have pb: "parse_body env (obj st) body = Loaded P"
    using rs us f by (simp add: parse_body_def body_def)
  show ?thesis
    by (simp add: Read_def d rb pb)
qed

text \<open>
  \<^verbatim>\<open>Write\<close> returns true also when bytes were lost at the close; the file is then a part
  of what was to be written.
\<close>

lemma Write_CloseFails:
  "on_write st = CloseFails k \<Longrightarrow>
     fst (Write env st) \<and> disk (snd (Write env st)) = Some (take k (Write_ssObj env (obj st)))"
  by (simp add: Write_def Let_def)

text \<open>A file that \<^verbatim>\<open>Write\<close> wrote has a body: line 144 is not reached with an empty vector.\<close>

lemma Read_checked_Write_ssObj:
  assumes d: "disk st = Some (Write_ssObj env P)"
    and len: "length (Write_ssObj env P) < 2 ^ 31"
  shows "Read_checked env fDryRun st = Some (Read env fDryRun st)"
proof -
  obtain a b c e where m: "MessageStart env = (a, b, c, e)"
    by (cases "MessageStart env") auto
  have l: "36 \<le> length (Write_ssObj env P)"
    by (simp add: Write_ssObj_def Let_def length_ser_uint256 m)
  then have "dataSize_of (length (Write_ssObj env P)) = length (Write_ssObj env P) - 32"
    using len by (intro dataSize_big) simp_all
  with l have "dataSize_of (length (Write_ssObj env P)) \<noteq> 0"
    by simp
  with d show ?thesis
    by (simp add: Read_checked_def)
qed

subsection \<open>The outcomes of Read\<close>

text \<open>
  Every call of \<^verbatim>\<open>Read\<close> ends in one of seven ways; five of them leave the state as it
  was.
\<close>

lemma Read_cases:
  "fst (Read env fDryRun st) = FileError \<and> snd (Read env fDryRun st) = st
   \<or> fst (Read env fDryRun st) = HashReadError \<and> snd (Read env fDryRun st) = st
   \<or> fst (Read env fDryRun st) = IncorrectHash \<and> snd (Read env fDryRun st) = st
   \<or> fst (Read env fDryRun st) = IncorrectMagicMessage \<and> snd (Read env fDryRun st) = st
   \<or> fst (Read env fDryRun st) = IncorrectMagicNumber \<and> snd (Read env fDryRun st) = st
   \<or> fst (Read env fDryRun st) = IncorrectFormat
       \<and> (\<exists>q. snd (Read env fDryRun st) = st\<lparr>obj := Clear env q, calls := calls st @ [CallClear]\<rparr>)
   \<or> fst (Read env fDryRun st) = Ok
       \<and> (\<exists>q. snd (Read env fDryRun st) =
                 (if fDryRun then st\<lparr>obj := q\<rparr>
                  else st\<lparr>obj := CheckAndRemove env q, calls := calls st @ [CallCheckAndRemove]\<rparr>))"
  by (auto simp: Read_def parse_body_def
           split: option.splits prod.splits tried.splits sum.splits if_splits)

text \<open>
  What \<^verbatim>\<open>Read\<close> does with \<^verbatim>\<open>CheckAndRemove\<close>: put any function \<open>f\<close> in its place. A run with
  \<^verbatim>\<open>fDryRun\<close> true does not change; a run with \<^verbatim>\<open>fDryRun\<close> false is the run with \<^verbatim>\<open>fDryRun\<close>
  true, followed, when that returned \<open>Ok\<close>, by \<open>f\<close> on the object it left.
\<close>

lemma Read_hook_dry:
  "Read (env\<lparr>CheckAndRemove := f\<rparr>) True st = Read env True st"
proof -
  have "read_body (env\<lparr>CheckAndRemove := f\<rparr>) c = read_body env c" for c
    by (rule read_body_FileAtEnd) simp
  then show ?thesis
    using parse_body_not_Ok [of env "obj st"]
    by (auto simp: Read_def parse_body_CheckAndRemove
             split: option.splits tried.splits)
qed

lemma Read_hook_run:
  "Read (env\<lparr>CheckAndRemove := f\<rparr>) False st =
     (if fst (Read env True st) = Ok
      then (Ok, (snd (Read env True st))
                  \<lparr>obj := f (obj (snd (Read env True st))),
                   calls := calls st @ [CallCheckAndRemove]\<rparr>)
      else Read env True st)"
proof -
  have "read_body (env\<lparr>CheckAndRemove := f\<rparr>) c = read_body env c" for c
    by (rule read_body_FileAtEnd) simp
  then show ?thesis
    using parse_body_not_Ok [of env "obj st"]
    by (auto simp: Read_def parse_body_CheckAndRemove
             split: option.splits tried.splits)
qed

section \<open>The claims\<close>

subsection \<open>C1: the result codes on which LoadFlatDB and DumpFlatDB give up\<close>

text \<open>
  C1 says that \<open>HashReadError\<close> is the only result of \<^verbatim>\<open>Read\<close> on which \<^verbatim>\<open>LoadFlatDB\<close> and
  \<^verbatim>\<open>DumpFlatDB\<close> return false, and that on \<open>IncorrectHash\<close>, \<open>IncorrectMagicMessage\<close> and
  \<open>IncorrectMagicNumber\<close> they go on. The source goes on only after \<open>FileError\<close> and
  \<open>IncorrectFormat\<close> (lines 14, 19, 46 and 51); every other result that is not \<open>Ok\<close>
  takes the \<^verbatim>\<open>else\<close> branch with \<^verbatim>\<open>return false\<close>. Three files show it: a file with a body
  of nine bytes and 32 zero bytes for its checksum, which is wrong; a file written for
  the type tag \<open>''mn''\<close> where \<open>''mx''\<close> is expected; the same file where other network
  bytes are expected. \<^verbatim>\<open>Read\<close> returns \<open>IncorrectHash\<close>, \<open>IncorrectMagicMessage\<close> and
  \<open>IncorrectMagicNumber\<close>, and each time both functions return false; \<^verbatim>\<open>DumpFlatDB\<close>
  leaves the file and makes no call.
\<close>

theorem Load_Dump_only_HashReadError_aborts_counterexample:
  "fst (Read sample_env False (sample_state [9] (Some sample_corrupt))) = IncorrectHash
   \<and> fst (LoadFlatDB sample_env (sample_state [9] (Some sample_corrupt))) = False
   \<and> DumpFlatDB sample_env (sample_state [9] (Some sample_corrupt))
       = (False, sample_state [9] (Some sample_corrupt))
   \<and> fst (Read (sample_env\<lparr>strMagicMessage := ''mx''\<rparr>) False
        (sample_state [9] (Some (Write_ssObj sample_env [7])))) = IncorrectMagicMessage
   \<and> fst (LoadFlatDB (sample_env\<lparr>strMagicMessage := ''mx''\<rparr>)
        (sample_state [9] (Some (Write_ssObj sample_env [7])))) = False
   \<and> DumpFlatDB (sample_env\<lparr>strMagicMessage := ''mx''\<rparr>)
        (sample_state [9] (Some (Write_ssObj sample_env [7])))
       = (False, sample_state [9] (Some (Write_ssObj sample_env [7])))
   \<and> fst (Read (sample_env\<lparr>MessageStart := (1, 2, 3, 5)\<rparr>) False
        (sample_state [9] (Some (Write_ssObj sample_env [7])))) = IncorrectMagicNumber
   \<and> fst (LoadFlatDB (sample_env\<lparr>MessageStart := (1, 2, 3, 5)\<rparr>)
        (sample_state [9] (Some (Write_ssObj sample_env [7])))) = False
   \<and> DumpFlatDB (sample_env\<lparr>MessageStart := (1, 2, 3, 5)\<rparr>)
        (sample_state [9] (Some (Write_ssObj sample_env [7])))
       = (False, sample_state [9] (Some (Write_ssObj sample_env [7])))"
  by code_simp

text \<open>
  C1 as amended: \<^verbatim>\<open>LoadFlatDB\<close> and \<^verbatim>\<open>DumpFlatDB\<close> return false exactly when \<^verbatim>\<open>Read\<close> returns
  \<open>HashReadError\<close>, \<open>IncorrectHash\<close>, \<open>IncorrectMagicMessage\<close> or \<open>IncorrectMagicNumber\<close>;
  after \<open>Ok\<close>, \<open>FileError\<close> and \<open>IncorrectFormat\<close> they return true, and \<^verbatim>\<open>DumpFlatDB\<close> then
  calls \<^verbatim>\<open>Write\<close> on the state that \<^verbatim>\<open>Read\<close> left.
\<close>

theorem LoadFlatDB_DumpFlatDB_abort_codes:
  "(\<not> fst (LoadFlatDB env st)) =
     (fst (Read env False st)
        \<in> {HashReadError, IncorrectHash, IncorrectMagicMessage, IncorrectMagicNumber})
   \<and> (\<not> fst (DumpFlatDB env st)) =
     (fst (Read env True st)
        \<in> {HashReadError, IncorrectHash, IncorrectMagicMessage, IncorrectMagicNumber})
   \<and> DumpFlatDB env st =
     (if fst (Read env True st)
           \<in> {HashReadError, IncorrectHash, IncorrectMagicMessage, IncorrectMagicNumber}
      then (False, snd (Read env True st))
      else (True, snd (Write env (snd (Read env True st)))))"
proof -
  have l: "(\<not> fst (LoadFlatDB env st)) =
     (fst (Read env False st)
        \<in> {HashReadError, IncorrectHash, IncorrectMagicMessage, IncorrectMagicNumber})"
    by (cases "fst (Read env False st)")
       (simp_all add: LoadFlatDB_def Let_def split_beta)
  have d: "DumpFlatDB env st =
     (if fst (Read env True st)
           \<in> {HashReadError, IncorrectHash, IncorrectMagicMessage, IncorrectMagicNumber}
      then (False, snd (Read env True st))
      else (True, snd (Write env (snd (Read env True st)))))"
    by (cases "fst (Read env True st)")
       (simp_all add: DumpFlatDB_def Let_def split_beta)
  from d have "(\<not> fst (DumpFlatDB env st)) =
     (fst (Read env True st)
        \<in> {HashReadError, IncorrectHash, IncorrectMagicMessage, IncorrectMagicNumber})"
    by (simp split: if_splits)
  with l d show ?thesis by blast
qed

text \<open>
  The amended C1 at the file with the wrong checksum, where \<^verbatim>\<open>LoadFlatDB\<close> gives up, and
  at a missing file, where \<^verbatim>\<open>DumpFlatDB\<close> goes on.
\<close>

theorem LoadFlatDB_DumpFlatDB_abort_codes_witness:
  "(\<not> fst (LoadFlatDB sample_env (sample_state [9] (Some sample_corrupt))))
   \<and> fst (DumpFlatDB sample_env (sample_state [9] None))"
proof -
  let ?st = "sample_state [9] (Some sample_corrupt)"
  have a: "fst (Read sample_env False ?st) = IncorrectHash"
    by code_simp
  have b: "fst (Read sample_env True (sample_state [9] None)) = FileError"
    by code_simp
  show ?thesis
    using LoadFlatDB_DumpFlatDB_abort_codes [of sample_env ?st]
      LoadFlatDB_DumpFlatDB_abort_codes [of sample_env "sample_state [9] None"]
    by (simp add: a b)
qed

subsection \<open>C2: a file shorter than the checksum\<close>

text \<open>
  C2: on a file of fewer than 32 bytes, \<^verbatim>\<open>Read\<close> takes the data size 0 and must not crash.
  The source does take the data size 0 (lines 134 to 137, written so that a small file
  is handled), and then line 144 indexes the vector it has just made empty. With a
  standard library that checks the index, every such file stops the program on line
  144, for either value of \<^verbatim>\<open>fDryRun\<close>: \<^verbatim>\<open>Read\<close> returns no result code at all.
\<close>

theorem Read_short_file_stops_on_line_144:
  assumes "disk st = Some content" and "length content < 32"
  shows "dataSize_of (length content) = 0 \<and> Read_checked env fDryRun st = None"
  using assms by (simp add: dataSize_small Read_checked_def)

text \<open>C2 at a file of three bytes.\<close>

theorem Read_short_file_stops_on_line_144_witness:
  "disk (sample_state [9] (Some [1, 2, 3])) = Some [1, 2, 3]
   \<and> length [1, 2, 3 :: byte] < 32
   \<and> dataSize_of (length [1, 2, 3 :: byte]) = 0
   \<and> Read_checked sample_env False (sample_state [9] (Some [1, 2, 3])) = None"
proof -
  have d: "disk (sample_state [9] (Some [1, 2, 3])) = Some [1, 2, 3]"
    by (simp add: sample_state_def)
  have l: "length [1, 2, 3 :: byte] < 32" by simp
  show ?thesis
    using d l Read_short_file_stops_on_line_144 [OF d l, of sample_env False] by simp
qed

subsection \<open>C3: DumpFlatDB after HashReadError\<close>

text \<open>
  C3: when the verifying \<^verbatim>\<open>Read\<close> in \<^verbatim>\<open>DumpFlatDB\<close> returns \<open>HashReadError\<close>, \<^verbatim>\<open>DumpFlatDB\<close>
  returns false and the state is as before the call: the file is unchanged, and no call
  of \<^verbatim>\<open>Write\<close> (nor any other) is recorded.
\<close>

theorem DumpFlatDB_HashReadError:
  assumes "fst (Read env True st) = HashReadError"
  shows "DumpFlatDB env st = (False, st)"
proof -
  from assms Read_cases [of env True st] have "snd (Read env True st) = st"
    by auto
  with assms show ?thesis
    by (simp add: DumpFlatDB_def Let_def split_beta)
qed

text \<open>C3 at the file of three bytes, with a read that throws at the end of the file.\<close>

theorem DumpFlatDB_HashReadError_witness:
  "fst (Read sample_env True (sample_state [9] (Some [1, 2, 3]))) = HashReadError
   \<and> DumpFlatDB sample_env (sample_state [9] (Some [1, 2, 3]))
       = (False, sample_state [9] (Some [1, 2, 3]))
   \<and> disk (snd (DumpFlatDB sample_env (sample_state [9] (Some [1, 2, 3])))) = Some [1, 2, 3]
   \<and> calls (snd (DumpFlatDB sample_env (sample_state [9] (Some [1, 2, 3])))) = []"
proof -
  have r: "fst (Read sample_env True (sample_state [9] (Some [1, 2, 3]))) = HashReadError"
    by code_simp
  show ?thesis using r DumpFlatDB_HashReadError [OF r] by (simp add: sample_state_def)
qed

subsection \<open>C4: the checksum is checked before the tags\<close>

text \<open>
  C4: once \<^verbatim>\<open>vchData\<close> and \<^verbatim>\<open>hashIn\<close> are read, a stored checksum that differs from the hash
  of \<^verbatim>\<open>vchData\<close> makes \<^verbatim>\<open>Read\<close> return \<open>IncorrectHash\<close> with the state, and so the object, as
  before. The parsers of the string and of the object are arbitrary here: the result does
  not depend on them, since they are not run.
\<close>

theorem Read_IncorrectHash_before_tags:
  assumes "disk st = Some content"
    and "read_body env content = Some (vchData, hashIn)"
    and "hashIn \<noteq> Hash env vchData"
  shows "Read (env\<lparr>ReadString := rs, Unserialize := us\<rparr>) fDryRun st = (IncorrectHash, st)"
proof -
  have "read_body (env\<lparr>ReadString := rs, Unserialize := us\<rparr>) content = read_body env content"
    by (rule read_body_FileAtEnd) simp
  with assms show ?thesis
    by (simp add: Read_def)
qed

text \<open>
  C4 at the file with a body of nine bytes and 32 zero bytes for its checksum, with
  parsers that always throw.
\<close>

theorem Read_IncorrectHash_before_tags_witness:
  "read_body sample_env sample_corrupt = Some ([2, 109, 110, 1, 2, 3, 4, 1, 7], 0)
   \<and> 0 \<noteq> Hash sample_env [2, 109, 110, 1, 2, 3, 4, 1, 7]
   \<and> Read (sample_env\<lparr>ReadString := (\<lambda>_. None), Unserialize := (\<lambda>p _. Inl p)\<rparr>) False
        (sample_state [9] (Some sample_corrupt))
       = (IncorrectHash, sample_state [9] (Some sample_corrupt))"
proof -
  have d: "disk (sample_state [9] (Some sample_corrupt)) = Some sample_corrupt"
    by (simp add: sample_state_def)
  have b: "read_body sample_env sample_corrupt = Some ([2, 109, 110, 1, 2, 3, 4, 1, 7], 0)"
    by code_simp
  have h: "0 \<noteq> Hash sample_env [2, 109, 110, 1, 2, 3, 4, 1, 7]"
    by code_simp
  show ?thesis
    using b h Read_IncorrectHash_before_tags
        [OF d b h, where rs = "\<lambda>_. None" and us = "\<lambda>p _. Inl p" and fDryRun = False]
    by blast
qed

subsection \<open>C5: the type tag is checked before the network tag\<close>

text \<open>
  C5: after the checksum has passed and the type tag has been parsed, a type tag other
  than \<^verbatim>\<open>strMagicMessage\<close> gives \<open>IncorrectMagicMessage\<close>, whatever follows it in the
  stream; with the right type tag, four network bytes other than those of
  \<^verbatim>\<open>MessageStart\<close> give \<open>IncorrectMagicNumber\<close>. In both cases the state is as before.
\<close>

theorem Read_type_tag_before_network_tag:
  assumes "disk st = Some content"
    and "read_body env content = Some (vchData, hashIn)"
    and "hashIn = Hash env vchData"
    and "ReadString env vchData = Some (strMagicMessageTmp, ssObj)"
  shows "(strMagicMessageTmp \<noteq> strMagicMessage env \<longrightarrow>
            Read env fDryRun st = (IncorrectMagicMessage, st))
       \<and> (strMagicMessageTmp = strMagicMessage env \<longrightarrow>
            stream_read env 4 ssObj = Some (pchMsgTmp, ssObj') \<longrightarrow>
            pchMsgTmp \<noteq> FLATDATA (MessageStart env) \<longrightarrow>
            Read env fDryRun st = (IncorrectMagicNumber, st))"
  using assms by (auto simp: Read_def parse_body_def)

text \<open>
  C5 at the file written for the tag \<open>''mn''\<close> and the network bytes 1, 2, 3, 4: read with
  the tag \<open>''mx''\<close> expected, and read with the network bytes 1, 2, 3, 5 expected.
\<close>

theorem Read_type_tag_before_network_tag_witness:
  "Read (sample_env\<lparr>strMagicMessage := ''mx''\<rparr>) False
        (sample_state [9] (Some (Write_ssObj sample_env [7])))
     = (IncorrectMagicMessage, sample_state [9] (Some (Write_ssObj sample_env [7])))
   \<and> Read (sample_env\<lparr>MessageStart := (1, 2, 3, 5)\<rparr>) False
        (sample_state [9] (Some (Write_ssObj sample_env [7])))
     = (IncorrectMagicNumber, sample_state [9] (Some (Write_ssObj sample_env [7])))"
proof -
  let ?st = "sample_state [9] (Some (Write_ssObj sample_env [7]))"
  let ?a = "sample_env\<lparr>strMagicMessage := ''mx''\<rparr>"
  let ?b = "sample_env\<lparr>MessageStart := (1, 2, 3, 5)\<rparr>"
  let ?body = "[2, 109, 110, 1, 2, 3, 4, 1, 7] :: byte list"
  have d: "disk ?st = Some (Write_ssObj sample_env [7])"
    by (simp add: sample_state_def)
  have ba: "read_body ?a (Write_ssObj sample_env [7]) = Some (?body, sample_Hash ?body)"
    by code_simp
  have bb: "read_body ?b (Write_ssObj sample_env [7]) = Some (?body, sample_Hash ?body)"
    by code_simp
  have ha: "sample_Hash ?body = Hash ?a ?body"
    by (simp add: sample_env_def)
  have hb: "sample_Hash ?body = Hash ?b ?body"
    by (simp add: sample_env_def)
  have ra: "ReadString ?a ?body = Some (''mn'', [1, 2, 3, 4, 1, 7])"
    by code_simp
  have rb: "ReadString ?b ?body = Some (''mn'', [1, 2, 3, 4, 1, 7])"
    by code_simp
  have ta: "''mn'' \<noteq> strMagicMessage ?a"
    by (simp add: sample_env_def)
  have tb: "''mn'' = strMagicMessage ?b"
    by (simp add: sample_env_def)
  have fb: "stream_read ?b 4 [1, 2, 3, 4, 1, 7 :: byte] = Some ([1, 2, 3, 4], [1, 7])"
    by (simp add: stream_read_def)
  have mb: "[1, 2, 3, 4] \<noteq> FLATDATA (MessageStart ?b)"
    by (simp add: sample_env_def)
  show ?thesis
    using Read_type_tag_before_network_tag [OF d ba ha ra, where fDryRun = False] ta
      Read_type_tag_before_network_tag
        [OF d bb hb rb, where pchMsgTmp = "[1, 2, 3, 4]" and ssObj' = "[1, 7]" and fDryRun = False]
      tb fb mb
    by simp
qed

subsection \<open>C6: an exception while parsing\<close>

text \<open>
  C6: after the checksum has passed, when reading the type tag throws, or reading the
  four network bytes throws, or deserializing the object throws and leaves it as \<open>q\<close>,
  \<^verbatim>\<open>Read\<close> calls \<^verbatim>\<open>Clear\<close> on the object and returns \<open>IncorrectFormat\<close>.
\<close>

theorem Read_exception_Clear_IncorrectFormat:
  assumes "disk st = Some content"
    and "read_body env content = Some (vchData, hashIn)"
    and "hashIn = Hash env vchData"
    and "ReadString env vchData = None \<and> q = obj st
       \<or> (\<exists>ssObj. ReadString env vchData = Some (strMagicMessage env, ssObj)
            \<and> stream_read env 4 ssObj = None \<and> q = obj st)
       \<or> (\<exists>ssObj ssObj'. ReadString env vchData = Some (strMagicMessage env, ssObj)
            \<and> stream_read env 4 ssObj = Some (FLATDATA (MessageStart env), ssObj')
            \<and> Unserialize env (obj st) ssObj' = Inl q)"
  shows "Read env fDryRun st =
           (IncorrectFormat, st\<lparr>obj := Clear env q, calls := calls st @ [CallClear]\<rparr>)"
proof -
  from assms(4) have "parse_body env (obj st) vchData = Thrown q"
    by (auto simp: parse_body_def)
  with assms(1-3) show ?thesis by (simp add: Read_def)
qed

text \<open>
  C6 at a file whose type tag announces five characters and has one, and at a file whose
  object announces five entries and has one; both with the right checksum.
\<close>

theorem Read_exception_Clear_IncorrectFormat_witness:
  "Read sample_env True
        (sample_state [9] (Some ([5, 109] @ ser_uint256 (sample_Hash [5, 109]))))
     = (IncorrectFormat,
        (sample_state [9] (Some ([5, 109] @ ser_uint256 (sample_Hash [5, 109]))))
          \<lparr>obj := [], calls := [CallClear]\<rparr>)
   \<and> Read sample_env True
        (sample_state [9] (Some ([2, 109, 110, 1, 2, 3, 4, 5, 7]
           @ ser_uint256 (sample_Hash [2, 109, 110, 1, 2, 3, 4, 5, 7]))))
     = (IncorrectFormat,
        (sample_state [9] (Some ([2, 109, 110, 1, 2, 3, 4, 5, 7]
           @ ser_uint256 (sample_Hash [2, 109, 110, 1, 2, 3, 4, 5, 7]))))
          \<lparr>obj := [], calls := [CallClear]\<rparr>)"
proof -
  let ?tag = "[5, 109] :: byte list"
  let ?body = "[2, 109, 110, 1, 2, 3, 4, 5, 7] :: byte list"
  let ?s1 = "sample_state [9] (Some (?tag @ ser_uint256 (sample_Hash ?tag)))"
  let ?s2 = "sample_state [9] (Some (?body @ ser_uint256 (sample_Hash ?body)))"
  have d1: "disk ?s1 = Some (?tag @ ser_uint256 (sample_Hash ?tag))"
    by (simp add: sample_state_def)
  have d2: "disk ?s2 = Some (?body @ ser_uint256 (sample_Hash ?body))"
    by (simp add: sample_state_def)
  have b1: "read_body sample_env (?tag @ ser_uint256 (sample_Hash ?tag))
              = Some (?tag, sample_Hash ?tag)"
    by (rule read_body_append) (simp add: length_ser_uint256)
  have b2: "read_body sample_env (?body @ ser_uint256 (sample_Hash ?body))
              = Some (?body, sample_Hash ?body)"
    by (rule read_body_append) (simp add: length_ser_uint256)
  have h1: "sample_Hash ?tag = Hash sample_env ?tag"
    by (simp add: sample_env_def)
  have h2: "sample_Hash ?body = Hash sample_env ?body"
    by (simp add: sample_env_def)
  have r1: "ReadString sample_env ?tag = None"
    by code_simp
  have o1: "[9] = obj ?s1"
    by (simp add: sample_state_def)
  have e1: "ReadString sample_env ?tag = None \<and> [9] = obj ?s1
       \<or> (\<exists>ssObj. ReadString sample_env ?tag = Some (strMagicMessage sample_env, ssObj)
            \<and> stream_read sample_env 4 ssObj = None \<and> [9] = obj ?s1)
       \<or> (\<exists>ssObj ssObj'. ReadString sample_env ?tag = Some (strMagicMessage sample_env, ssObj)
            \<and> stream_read sample_env 4 ssObj = Some (FLATDATA (MessageStart sample_env), ssObj')
            \<and> Unserialize sample_env (obj ?s1) ssObj' = Inl [9])"
    using r1 o1 by blast
  have r2: "ReadString sample_env ?body = Some (strMagicMessage sample_env, [1, 2, 3, 4, 5, 7])"
    by code_simp
  have f2: "stream_read sample_env 4 [1, 2, 3, 4, 5, 7 :: byte]
              = Some (FLATDATA (MessageStart sample_env), [5, 7])"
    by (simp add: stream_read_def sample_env_def)
  have u2: "Unserialize sample_env (obj ?s2) [5, 7] = Inl [7]"
    by (simp add: sample_env_def sample_Unserialize_def sample_state_def)
  have e2: "ReadString sample_env ?body = None \<and> [7] = obj ?s2
       \<or> (\<exists>ssObj. ReadString sample_env ?body = Some (strMagicMessage sample_env, ssObj)
            \<and> stream_read sample_env 4 ssObj = None \<and> [7] = obj ?s2)
       \<or> (\<exists>ssObj ssObj'. ReadString sample_env ?body = Some (strMagicMessage sample_env, ssObj)
            \<and> stream_read sample_env 4 ssObj = Some (FLATDATA (MessageStart sample_env), ssObj')
            \<and> Unserialize sample_env (obj ?s2) ssObj' = Inl [7])"
    using r2 f2 u2 by blast
  have c: "Clear sample_env q = []" for q
    by (simp add: sample_env_def)
  show ?thesis
    using Read_exception_Clear_IncorrectFormat [OF d1 b1 h1 e1, of True]
      Read_exception_Clear_IncorrectFormat [OF d2 b2 h2 e2, of True]
    by (simp add: c sample_state_def)
qed

subsection \<open>C7: reading what Write wrote\<close>

text \<open>
  C7 says that after \<^verbatim>\<open>Write\<close> of an object \<open>P\<close>, \<^verbatim>\<open>Read\<close> with \<^verbatim>\<open>fDryRun\<close> false returns \<open>Ok\<close>
  and leaves the object equal to \<open>P\<close>, for any \<open>P\<close>. With \<^verbatim>\<open>fDryRun\<close> false, line 201 calls
  \<^verbatim>\<open>CheckAndRemove\<close> on the object just loaded, so what is left is \<open>P\<close> after its
  maintenance. Here \<open>P\<close> has the entries 0 and 7, of which 0 is stale: \<^verbatim>\<open>Read\<close> returns
  \<open>Ok\<close> and the object has the entry 7 only.
\<close>

theorem Write_Read_roundtrip_counterexample:
  "fst (Write sample_env (sample_state [0, 7] None)) = True
   \<and> fst (Read sample_env False (snd (Write sample_env (sample_state [0, 7] None)))) = Ok
   \<and> obj (snd (Read sample_env False (snd (Write sample_env (sample_state [0, 7] None))))) = [7]
   \<and> obj (snd (Read sample_env False (snd (Write sample_env (sample_state [0, 7] None)))))
       \<noteq> [0, 7]"
  by code_simp

text \<open>
  C7 as amended: when the file system stores the whole file that \<^verbatim>\<open>Write\<close> writes for the
  object \<open>P\<close> (the file is opened, no write throws, and no byte is lost when the file is
  closed), the file is shorter than \<open>2 ^ 31\<close> bytes, the string operators read back the
  type tag they wrote, and the object's deserializer, started on the object \<open>q\<close> that
  \<^verbatim>\<open>Read\<close> is given, reads back \<open>P\<close> from what its serializer wrote, then \<^verbatim>\<open>Write\<close> returns
  true and \<^verbatim>\<open>Read\<close> with the same tags returns \<open>Ok\<close>; with \<^verbatim>\<open>fDryRun\<close> false it leaves the
  object equal to \<^verbatim>\<open>CheckAndRemove\<close> applied to \<open>P\<close>, with \<^verbatim>\<open>fDryRun\<close> true equal to \<open>P\<close>.
  Line 144 is not reached with an empty vector on such a file. That \<^verbatim>\<open>Write\<close> returned
  true is not enough: it does so too when bytes were lost at the close.
\<close>

theorem Write_Read_roundtrip:
  assumes ok: "on_write st = WriteOk"
    and len: "length (Write_ssObj env (obj st)) < 2 ^ 31"
    and rs: "ReadString env (WriteString env (strMagicMessage env)
               @ FLATDATA (MessageStart env) @ Serialize env (obj st))
             = Some (strMagicMessage env, FLATDATA (MessageStart env) @ Serialize env (obj st))"
    and us: "Unserialize env q (Serialize env (obj st)) = Inr (obj st)"
  shows "fst (Write env st)
       \<and> Read env fDryRun ((snd (Write env st))\<lparr>obj := q\<rparr>) =
           (Ok, if fDryRun then (snd (Write env st))\<lparr>obj := obj st\<rparr>
                else (snd (Write env st))
                       \<lparr>obj := CheckAndRemove env (obj st),
                        calls := calls (snd (Write env st)) @ [CallCheckAndRemove]\<rparr>)
       \<and> Read_checked env fDryRun ((snd (Write env st))\<lparr>obj := q\<rparr>) =
           Some (Read env fDryRun ((snd (Write env st))\<lparr>obj := q\<rparr>))"
proof -
  let ?st' = "(snd (Write env st))\<lparr>obj := q\<rparr>"
  from ok have w: "fst (Write env st)"
    by (simp add: Write_def Let_def)
  from ok have d: "disk ?st' = Some (Write_ssObj env (obj st))"
    by (simp add: Write_def Let_def)
  have us': "Unserialize env (obj ?st') (Serialize env (obj st)) = Inr (obj st)"
    using us by simp
  have r: "Read env fDryRun ?st' =
           (Ok, if fDryRun then (snd (Write env st))\<lparr>obj := obj st\<rparr>
                else (snd (Write env st))
                       \<lparr>obj := CheckAndRemove env (obj st),
                        calls := calls (snd (Write env st)) @ [CallCheckAndRemove]\<rparr>)"
    using Read_Write_ssObj [OF d len rs us', of fDryRun] by simp
  have c: "Read_checked env fDryRun ?st' = Some (Read env fDryRun ?st')"
    using d len by (rule Read_checked_Write_ssObj)
  from w r c show ?thesis by blast
qed

text \<open>
  The amended C7 at the object with the entries 0 and 7, read into an object that held
  the entry 9: with \<^verbatim>\<open>fDryRun\<close> false the entry 7 is left, with \<^verbatim>\<open>fDryRun\<close> true both.
\<close>

theorem Write_Read_roundtrip_witness:
  "on_write (sample_state [0, 7] None) = WriteOk
   \<and> fst (Write sample_env (sample_state [0, 7] None))
   \<and> fst (Read sample_env False ((snd (Write sample_env (sample_state [0, 7] None)))\<lparr>obj := [9]\<rparr>))
       = Ok
   \<and> obj (snd (Read sample_env False
        ((snd (Write sample_env (sample_state [0, 7] None)))\<lparr>obj := [9]\<rparr>))) = [7]
   \<and> obj (snd (Read sample_env True
        ((snd (Write sample_env (sample_state [0, 7] None)))\<lparr>obj := [9]\<rparr>))) = [0, 7]"
proof -
  let ?st = "sample_state [0, 7] None"
  have ok: "on_write ?st = WriteOk"
    by (simp add: sample_state_def)
  have o: "obj ?st = [0, 7]"
    by (simp add: sample_state_def)
  have len: "length (Write_ssObj sample_env (obj ?st)) < 2 ^ 31"
    unfolding o
    by (simp add: Write_ssObj_def Let_def length_ser_uint256 sample_env_def
          sample_WriteString_def sample_Serialize_def)
  have rs: "ReadString sample_env (WriteString sample_env (strMagicMessage sample_env)
               @ FLATDATA (MessageStart sample_env) @ Serialize sample_env (obj ?st))
             = Some (strMagicMessage sample_env,
                     FLATDATA (MessageStart sample_env) @ Serialize sample_env (obj ?st))"
    unfolding o by code_simp
  have us: "Unserialize sample_env [9] (Serialize sample_env (obj ?st)) = Inr (obj ?st)"
    unfolding o by code_simp
  have c: "CheckAndRemove sample_env [0, 7] = [7]"
    by (simp add: sample_env_def)
  show ?thesis
    using ok Write_Read_roundtrip [OF ok len rs us, of False]
      Write_Read_roundtrip [OF ok len rs us, of True]
    by (simp add: o c)
qed

subsection \<open>C8: when Read calls CheckAndRemove\<close>

text \<open>
  C8: \<^verbatim>\<open>Read\<close> applies \<^verbatim>\<open>CheckAndRemove\<close> exactly when it returns \<open>Ok\<close> and \<^verbatim>\<open>fDryRun\<close> is false.
  Put any function \<open>f\<close> in the place of \<^verbatim>\<open>CheckAndRemove\<close>. A \<^verbatim>\<open>Read\<close> with \<^verbatim>\<open>fDryRun\<close> true is
  the same whatever \<open>f\<close> is: it does not use it, whatever it returns. A \<^verbatim>\<open>Read\<close> with
  \<^verbatim>\<open>fDryRun\<close> false that does not return \<open>Ok\<close> is the run with \<^verbatim>\<open>fDryRun\<close> true; one that
  returns \<open>Ok\<close> is the run with \<^verbatim>\<open>fDryRun\<close> true followed by \<open>f\<close>, applied once to the
  object that run has loaded. The record of calls agrees: among the calls that one
  \<^verbatim>\<open>Read\<close> makes there is a call of \<^verbatim>\<open>CheckAndRemove\<close> exactly when it returns \<open>Ok\<close> and
  \<^verbatim>\<open>fDryRun\<close> is false.
\<close>

theorem Read_CheckAndRemove_iff:
  "Read (env\<lparr>CheckAndRemove := f\<rparr>) True st = Read env True st
   \<and> fst (Read env False st) = fst (Read env True st)
   \<and> Read (env\<lparr>CheckAndRemove := f\<rparr>) False st =
       (if fst (Read env False st) = Ok
        then (Ok, (snd (Read env True st))
                    \<lparr>obj := f (obj (snd (Read env True st))),
                     calls := calls st @ [CallCheckAndRemove]\<rparr>)
        else Read env True st)
   \<and> (CallCheckAndRemove \<in> set (drop (length (calls st)) (calls (snd (Read env fDryRun st)))))
       = (fst (Read env fDryRun st) = Ok \<and> \<not> fDryRun)
   \<and> CallCheckAndRemove \<notin> set (drop (length (calls st)) (calls (snd (Read env True st))))"
proof -
  have e: "env\<lparr>CheckAndRemove := CheckAndRemove env\<rparr> = env"
    by simp
  have "fst (Read (env\<lparr>CheckAndRemove := CheckAndRemove env\<rparr>) False st)
          = fst (Read env True st)"
    unfolding Read_hook_run by simp
  then have same: "fst (Read env False st) = fst (Read env True st)"
    unfolding e .
  have run: "Read (env\<lparr>CheckAndRemove := f\<rparr>) False st =
       (if fst (Read env False st) = Ok
        then (Ok, (snd (Read env True st))
                    \<lparr>obj := f (obj (snd (Read env True st))),
                     calls := calls st @ [CallCheckAndRemove]\<rparr>)
        else Read env True st)"
    unfolding same by (rule Read_hook_run)
  have a: "(CallCheckAndRemove \<in> set (drop (length (calls st)) (calls (snd (Read env b st)))))
     = (fst (Read env b st) = Ok \<and> \<not> b)" for b
    using Read_cases [of env b st] by (cases b) auto
  from Read_hook_dry [where env = env and f = f and st = st] same run
    a [of fDryRun] a [of True]
  show ?thesis by simp
qed

text \<open>
  C8 at a file that verifies and holds the entries 0 and 7, with a hook that puts the
  entry 42 in front: with \<^verbatim>\<open>fDryRun\<close> true the object is as loaded and no call is
  recorded, with \<^verbatim>\<open>fDryRun\<close> false the hook has been applied to it once.
\<close>

theorem Read_CheckAndRemove_iff_witness:
  "Read (sample_env\<lparr>CheckAndRemove := Cons 42\<rparr>) True
        (sample_state [9] (Some (Write_ssObj sample_env [0, 7])))
     = (Ok, sample_state [0, 7] (Some (Write_ssObj sample_env [0, 7])))
   \<and> Read (sample_env\<lparr>CheckAndRemove := Cons 42\<rparr>) False
        (sample_state [9] (Some (Write_ssObj sample_env [0, 7])))
     = (Ok, (sample_state [42, 0, 7] (Some (Write_ssObj sample_env [0, 7])))
              \<lparr>calls := [CallCheckAndRemove]\<rparr>)"
proof -
  let ?st = "sample_state [9] (Some (Write_ssObj sample_env [0, 7]))"
  have r: "Read sample_env True ?st
             = (Ok, sample_state [0, 7] (Some (Write_ssObj sample_env [0, 7])))"
    by code_simp
  have k: "fst (Read sample_env False ?st) = Ok"
    by code_simp
  from Read_CheckAndRemove_iff
         [where env = sample_env and f = "Cons 42" and st = ?st and fDryRun = False]
  have 1: "Read (sample_env\<lparr>CheckAndRemove := Cons 42\<rparr>) True ?st = Read sample_env True ?st"
    and 2: "Read (sample_env\<lparr>CheckAndRemove := Cons 42\<rparr>) False ?st =
       (if fst (Read sample_env False ?st) = Ok
        then (Ok, (snd (Read sample_env True ?st))
                    \<lparr>obj := Cons 42 (obj (snd (Read sample_env True ?st))),
                     calls := calls ?st @ [CallCheckAndRemove]\<rparr>)
        else Read sample_env True ?st)"
    by blast+
  show ?thesis
    unfolding 1 2 k r by (simp add: sample_state_def)
qed

subsection \<open>C9: what Read does to the object when it fails\<close>

text \<open>
  C9: when \<^verbatim>\<open>Read\<close> returns \<open>FileError\<close>, \<open>HashReadError\<close>, \<open>IncorrectHash\<close>,
  \<open>IncorrectMagicMessage\<close> or \<open>IncorrectMagicNumber\<close>, the state, and so the object, is as
  before the call; when it returns \<open>IncorrectFormat\<close>, the object is the result of
  \<^verbatim>\<open>Clear\<close> and nothing else has changed but the record of that call.
\<close>

theorem Read_object_frame:
  "(fst (Read env fDryRun st)
      \<in> {FileError, HashReadError, IncorrectHash, IncorrectMagicMessage, IncorrectMagicNumber}
     \<longrightarrow> snd (Read env fDryRun st) = st)
   \<and> (fst (Read env fDryRun st) = IncorrectFormat
     \<longrightarrow> (\<exists>q. snd (Read env fDryRun st) =
               st\<lparr>obj := Clear env q, calls := calls st @ [CallClear]\<rparr>))"
  using Read_cases [of env fDryRun st] by auto

text \<open>
  C9 at the file with the wrong checksum (\<open>IncorrectHash\<close>) and at a file whose type tag
  announces five characters and has one (\<open>IncorrectFormat\<close>).
\<close>

theorem Read_object_frame_witness:
  "snd (Read sample_env False (sample_state [9] (Some sample_corrupt)))
     = sample_state [9] (Some sample_corrupt)
   \<and> (\<exists>q. snd (Read sample_env False
               (sample_state [9] (Some ([5, 109] @ ser_uint256 (sample_Hash [5, 109])))))
           = (sample_state [9] (Some ([5, 109] @ ser_uint256 (sample_Hash [5, 109]))))
               \<lparr>obj := Clear sample_env q, calls := [CallClear]\<rparr>)"
proof -
  let ?s1 = "sample_state [9] (Some sample_corrupt)"
  let ?s2 = "sample_state [9] (Some ([5, 109] @ ser_uint256 (sample_Hash [5, 109])))"
  have r1: "fst (Read sample_env False ?s1) = IncorrectHash"
    by code_simp
  have r2: "fst (Read sample_env False ?s2) = IncorrectFormat"
    by code_simp
  have k: "calls ?s2 = []"
    by (simp add: sample_state_def)
  from Read_object_frame [of sample_env False ?s1] r1
  have 1: "snd (Read sample_env False ?s1) = ?s1"
    by simp
  from Read_object_frame [of sample_env False ?s2] r2
  have 2: "\<exists>q. snd (Read sample_env False ?s2) =
               ?s2\<lparr>obj := Clear sample_env q, calls := calls ?s2 @ [CallClear]\<rparr>"
    by blast
  from 2 have 3: "\<exists>q. snd (Read sample_env False ?s2) =
               ?s2\<lparr>obj := Clear sample_env q, calls := [CallClear]\<rparr>"
    unfolding k by simp
  from 1 3 show ?thesis by blast
qed

subsection \<open>C10: DumpFlatDB writes back what the file held\<close>

text \<open>
  C10: \<^verbatim>\<open>DumpFlatDB\<close> gives the verifying \<^verbatim>\<open>Read\<close> the object that it is asked to save. So
  whenever the file verifies (the checksum passes, both tags are right, and the
  deserializer, started on the caller's object, loads \<open>loaded\<close> from the rest), the
  caller's object is \<open>loaded\<close> when \<^verbatim>\<open>Write\<close> runs, \<^verbatim>\<open>DumpFlatDB\<close> returns true, and the
  bytes that a successful \<^verbatim>\<open>Write\<close> puts into the file are those of \<open>loaded\<close>: the state
  that the caller asked to save is not written.
\<close>

theorem DumpFlatDB_saves_the_file_object:
  assumes d: "disk st = Some content"
    and b: "read_body env content = Some (vchData, hashIn)"
    and h: "hashIn = Hash env vchData"
    and rs: "ReadString env vchData = Some (strMagicMessage env, ssObj)"
    and f: "stream_read env 4 ssObj = Some (FLATDATA (MessageStart env), ssObj')"
    and us: "Unserialize env (obj st) ssObj' = Inr loaded"
  shows "Read env True st = (Ok, st\<lparr>obj := loaded\<rparr>)
       \<and> DumpFlatDB env st = (True, snd (Write env (st\<lparr>obj := loaded\<rparr>)))
       \<and> obj (snd (DumpFlatDB env st)) = loaded
       \<and> (on_write st = WriteOk \<longrightarrow>
            disk (snd (DumpFlatDB env st)) = Some (Write_ssObj env loaded))"
proof -
  have pb: "parse_body env (obj st) vchData = Loaded loaded"
    using rs f us by (simp add: parse_body_def)
  have r: "Read env True st = (Ok, st\<lparr>obj := loaded\<rparr>)"
    using d b h pb by (simp add: Read_def)
  then have dump: "DumpFlatDB env st = (True, snd (Write env (st\<lparr>obj := loaded\<rparr>)))"
    by (simp add: DumpFlatDB_def Let_def split_beta)
  have o: "obj (snd (Write env (st\<lparr>obj := loaded\<rparr>))) = loaded"
    by (simp add: Write_def Let_def split: fs_write.splits)
  have w: "on_write st = WriteOk \<longrightarrow>
             disk (snd (Write env (st\<lparr>obj := loaded\<rparr>))) = Some (Write_ssObj env loaded)"
    by (simp add: Write_def Let_def)
  show ?thesis
    unfolding dump using r o w by simp
qed

text \<open>
  C10 at a caller's object with the entry 9 and a file written earlier for the entry 7:
  after \<^verbatim>\<open>DumpFlatDB\<close> the object has the entry 7, and the file is the one for the entry 7,
  which is not the one for the entry 9.
\<close>

theorem DumpFlatDB_saves_the_file_object_witness:
  "obj (sample_state [9] (Some (Write_ssObj sample_env [7]))) = [9]
   \<and> fst (DumpFlatDB sample_env (sample_state [9] (Some (Write_ssObj sample_env [7]))))
   \<and> obj (snd (DumpFlatDB sample_env (sample_state [9] (Some (Write_ssObj sample_env [7]))))) = [7]
   \<and> disk (snd (DumpFlatDB sample_env (sample_state [9] (Some (Write_ssObj sample_env [7])))))
       = Some (Write_ssObj sample_env [7])
   \<and> Write_ssObj sample_env [7] \<noteq> Write_ssObj sample_env [9]"
proof -
  let ?st = "sample_state [9] (Some (Write_ssObj sample_env [7]))"
  let ?body = "[2, 109, 110, 1, 2, 3, 4, 1, 7] :: byte list"
  have d: "disk ?st = Some (Write_ssObj sample_env [7])"
    by (simp add: sample_state_def)
  have b: "read_body sample_env (Write_ssObj sample_env [7]) = Some (?body, sample_Hash ?body)"
    by code_simp
  have h: "sample_Hash ?body = Hash sample_env ?body"
    by (simp add: sample_env_def)
  have rs: "ReadString sample_env ?body = Some (strMagicMessage sample_env, [1, 2, 3, 4, 1, 7])"
    by code_simp
  have f: "stream_read sample_env 4 [1, 2, 3, 4, 1, 7 :: byte]
             = Some (FLATDATA (MessageStart sample_env), [1, 7])"
    by (simp add: stream_read_def sample_env_def)
  have us: "Unserialize sample_env (obj ?st) [1, 7] = Inr [7]"
    by (simp add: sample_env_def sample_Unserialize_def sample_state_def)
  have o: "obj ?st = [9]"
    by (simp add: sample_state_def)
  have ok: "on_write ?st = WriteOk"
    by (simp add: sample_state_def)
  have ne: "Write_ssObj sample_env [7] \<noteq> Write_ssObj sample_env [9]"
    by (simp add: Write_ssObj_def Let_def sample_env_def sample_Serialize_def)
  have t: "fst (True, x) " for x :: "byte list state"
    by simp
  from DumpFlatDB_saves_the_file_object [OF d b h rs f us]
  have 1: "DumpFlatDB sample_env ?st = (True, snd (Write sample_env (?st\<lparr>obj := [7]\<rparr>)))"
    and 2: "obj (snd (DumpFlatDB sample_env ?st)) = [7]"
    and 3: "on_write ?st = WriteOk \<longrightarrow>
              disk (snd (DumpFlatDB sample_env ?st)) = Some (Write_ssObj sample_env [7])"
    by blast+
  from 1 have 4: "fst (DumpFlatDB sample_env ?st)"
    by (simp only: t)
  from o 4 2 3 ok ne show ?thesis
    by blast
qed

end
